theory Spec2Isabelle
  imports Main
begin

section \<open>The Teeworlds econ client (src/service/econ.ts)\<close>

text \<open>
  The class \<^verbatim>\<open>TeeworldsEcon\<close> is embedded as a record of its fields together with
  the part of the Node.js runtime its methods touch: the sockets returned by
  \<^verbatim>\<open>net.connect\<close>, the timers created by \<^verbatim>\<open>setTimeout\<close>, the promises created by
  the \<^verbatim>\<open>async\<close> methods, and a log of the calls made to the registered listeners.
  Every method and every callback of the source is a function from the state to the new
  state; the runtime delivers callbacks one at a time, so a run of the program is a list
  of events folded over the state.
\<close>

subsection \<open>Strings\<close>

text \<open>
  A JavaScript string is a sequence of UTF-16 code units. A received chunk is modelled
  by the text that \<^verbatim>\<open>data.toString('utf-8')\<close> yields for it.
\<close>

type_synonym jsstring = "nat list"

definition js :: "string \<Rightarrow> jsstring" where
  "js s = map of_char s"

text \<open>The characters \<^verbatim>\<open>String.prototype.trimEnd\<close> strips: WhiteSpace and LineTerminator.\<close>

definition isWhiteSpace :: "nat \<Rightarrow> bool" where
  "isWhiteSpace c \<longleftrightarrow>
     c = 0x09 \<or> c = 0x0A \<or> c = 0x0B \<or> c = 0x0C \<or> c = 0x0D \<or> c = 0x20 \<or> c = 0xA0 \<or>
     c = 0x1680 \<or> (0x2000 \<le> c \<and> c \<le> 0x200A) \<or> c = 0x2028 \<or> c = 0x2029 \<or>
     c = 0x202F \<or> c = 0x205F \<or> c = 0x3000 \<or> c = 0xFEFF"

definition trimEnd :: "jsstring \<Rightarrow> jsstring" where
  "trimEnd s = rev (dropWhile isWhiteSpace (rev s))"

definition startsWith :: "jsstring \<Rightarrow> jsstring \<Rightarrow> bool" where
  "startsWith s p \<longleftrightarrow> take (length p) s = p"

text \<open>\<^verbatim>\<open>Array.prototype.join\<close> on an array of strings.\<close>

fun join :: "jsstring list \<Rightarrow> jsstring \<Rightarrow> jsstring" where
  "join [] sep = []"
| "join [c] sep = c"
| "join (c # cs) sep = c @ sep @ join cs sep"

subsection \<open>Data model\<close>

datatype conn_state = Connecting | Connected | Disconnected

text \<open>
  The errors of the source: \<^verbatim>\<open>Error('Connection timeout.')\<close>, \<^verbatim>\<open>Error('Wrong password.')\<close>,
  \<^verbatim>\<open>Error('Connection not established')\<close>, the TypeError JavaScript raises when a
  method is called on \<^verbatim>\<open>this.conn\<close> while it is null or undefined, and the RangeError
  \<^verbatim>\<open>net.connect\<close> raises for a port that is not a TCP port.
\<close>

datatype econ_error = ConnectionTimeout | WrongPassword | NotEstablished | TypeError | BadPort

datatype promise = Pending | Resolved | Rejected econ_error

text \<open>
  A socket as the client sees it: the payload of every \<^verbatim>\<open>write\<close>, whether \<^verbatim>\<open>end()\<close> was
  called, the promise whose \<^verbatim>\<open>resolve\<close>/\<^verbatim>\<open>reject\<close> the 'data' listener of \<^verbatim>\<open>connect\<close>
  closes over, and the promises waiting in \<^verbatim>\<open>once('drain', ...)\<close> listeners.
\<close>

record socket =
  sock_host :: jsstring
  sock_port :: int
  written :: "jsstring list"
  ended :: bool
  data_promise :: nat
  drain_once :: "nat list"

datatype timer_status = Armed | Cleared | Fired

text \<open>A timer of \<^verbatim>\<open>connect\<close>: its delay and the promise its callback rejects.\<close>

record timer =
  delay :: int
  status :: timer_status
  timer_promise :: nat

datatype notification = Message jsstring | Closed bool | Errored jsstring

text \<open>
  The instance. \<^verbatim>\<open>conn\<close> and \<^verbatim>\<open>timeout\<close> hold an index into \<open>sockets\<close> and \<open>timers\<close>,
  or \<open>None\<close> for null/undefined; a hook holds the identity of the registered listener.
  \<open>delivered\<close> logs every call of a listener, \<open>uncaught\<close> every exception that
  escapes a callback of the runtime.
\<close>

record econ =
  opt_host :: "jsstring option"
  opt_port :: int
  opt_password :: jsstring
  opt_timeout :: "int option"
  state :: conn_state
  conn :: "nat option"
  timeout :: "nat option"
  messageHooks :: "nat option"
  closeHook :: "nat option"
  errorHook :: "nat option"
  sockets :: "socket list"
  timers :: "timer list"
  promises :: "promise list"
  delivered :: "(nat \<times> notification) list"
  uncaught :: "econ_error list"

record EconOptions =
  host :: "jsstring option"
  port :: int
  password :: jsstring
  timeout_opt :: "int option"

definition new_econ :: "EconOptions \<Rightarrow> econ" where
  "new_econ options =
     \<lparr>opt_host = host options, opt_port = port options, opt_password = password options,
      opt_timeout = timeout_opt options, state = Disconnected, conn = None, timeout = None,
      messageHooks = None, closeHook = None, errorHook = None,
      sockets = [], timers = [], promises = [], delivered = [], uncaught = []\<rparr>"

subsection \<open>Runtime primitives\<close>

text \<open>\<^verbatim>\<open>resolve\<close> and \<^verbatim>\<open>reject\<close> settle a promise once; later calls do nothing.\<close>

definition settle :: "promise list \<Rightarrow> nat \<Rightarrow> promise \<Rightarrow> promise list" where
  "settle ps p v = (if p < length ps \<and> ps ! p = Pending then ps[p := v] else ps)"

definition sock_write :: "socket list \<Rightarrow> nat \<Rightarrow> jsstring \<Rightarrow> socket list" where
  "sock_write ss c d =
     (if c < length ss then ss[c := (ss ! c)\<lparr>written := written (ss ! c) @ [d]\<rparr>] else ss)"

definition sock_end :: "socket list \<Rightarrow> nat \<Rightarrow> socket list" where
  "sock_end ss c = (if c < length ss then ss[c := (ss ! c)\<lparr>ended := True\<rparr>] else ss)"

text \<open>The port check \<^verbatim>\<open>net.connect\<close> makes before it creates anything.\<close>

definition validatePort :: "int \<Rightarrow> bool" where
  "validatePort p \<longleftrightarrow> 0 \<le> p \<and> p \<le> 65535"

definition clearTimeout :: "timer list \<Rightarrow> nat \<Rightarrow> timer list" where
  "clearTimeout ts t =
     (if t < length ts \<and> status (ts ! t) = Armed then ts[t := (ts ! t)\<lparr>status := Cleared\<rparr>]
      else ts)"

subsection \<open>Methods\<close>

text \<open>
  \<^verbatim>\<open>connect()\<close>, lines 24-59: the defaults, the state, then \<^verbatim>\<open>net.connect\<close>. For a port that
  is not a TCP port \<^verbatim>\<open>net.connect\<close> throws at once: the method is \<^verbatim>\<open>async\<close>, so the result
  is a rejected promise, and the state is already assigned while no socket and no timer
  exist. Otherwise the socket is created, then the timer and the 'data' listener. The
  result is the new state and the promise returned.
\<close>

definition connect :: "econ \<Rightarrow> econ \<times> nat" where
  "connect w =
     (let tmo = (case opt_timeout w of None \<Rightarrow> 10000 | Some t \<Rightarrow> if t = 0 then 10000 else t);
          hst = (case opt_host w of None \<Rightarrow> js ''localhost''
                 | Some h \<Rightarrow> if h = [] then js ''localhost'' else h);
          w1 = w\<lparr>opt_timeout := Some tmo, opt_host := Some hst, state := Connecting\<rparr>;
          sid = length (sockets w);
          tid = length (timers w);
          pid = length (promises w)
      in if validatePort (opt_port w) then
           (w1\<lparr>conn := Some sid,
               sockets := sockets w @
                 [\<lparr>sock_host = hst, sock_port = opt_port w, written = [], ended = False,
                   data_promise = pid, drain_once = []\<rparr>],
               promises := promises w @ [Pending],
               timers := timers w @ [\<lparr>delay = tmo, status = Armed, timer_promise = pid\<rparr>],
               timeout := Some tid\<rparr>, pid)
         else (w1\<lparr>promises := promises w @ [Rejected BadPort]\<rparr>, pid))"

text \<open>
  \<^verbatim>\<open>disconnect()\<close>, lines 61-67. \<^verbatim>\<open>this.conn.end()\<close> raises a TypeError when the guard
  is passed with \<^verbatim>\<open>this.conn\<close> null; the state is already assigned then.
\<close>

definition disconnect :: "econ \<Rightarrow> econ_error option \<times> econ" where
  "disconnect w =
     (if state w \<noteq> Disconnected \<or> conn w \<noteq> None then
        (let w1 = w\<lparr>state := Disconnected\<rparr> in
         case conn w1 of
           None \<Rightarrow> (Some TypeError, w1)
         | Some c \<Rightarrow> (None, w1\<lparr>sockets := sock_end (sockets w1) c, conn := None\<rparr>))
      else (None, w))"

text \<open>The callback of the timer armed by \<^verbatim>\<open>connect\<close>, lines 33-38, run when timer \<open>t\<close> fires.\<close>

definition fire_timer :: "econ \<Rightarrow> nat \<Rightarrow> econ" where
  "fire_timer w t =
     (if t < length (timers w) \<and> status (timers w ! t) = Armed then
        (let w1 = w\<lparr>timers := (timers w)[t := (timers w ! t)\<lparr>status := Fired\<rparr>]\<rparr> in
         if state w1 = Connecting then
           (case disconnect w1 of
              (Some e, w2) \<Rightarrow> w2\<lparr>uncaught := uncaught w2 @ [e]\<rparr>
            | (None, w2) \<Rightarrow>
                w2\<lparr>promises :=
                     settle (promises w2) (timer_promise (timers w ! t)) (Rejected ConnectionTimeout)\<rparr>)
         else w1)
      else w)"

text \<open>
  The 'data' listener armed by \<^verbatim>\<open>connect\<close>, lines 39-57, run when chunk \<open>d\<close> arrives on
  socket \<open>s\<close>.
\<close>

definition on_data :: "econ \<Rightarrow> nat \<Rightarrow> jsstring \<Rightarrow> econ" where
  "on_data w s d =
     (if s < length (sockets w) then
        (let line = trimEnd d in
         if state w = Connecting then
           (if startsWith line (js ''Enter password:'') then
              (case conn w of
                 None \<Rightarrow> w\<lparr>uncaught := uncaught w @ [TypeError]\<rparr>
               | Some c \<Rightarrow> w\<lparr>sockets := sock_write (sockets w) c (opt_password w @ js ''\<newline>'')\<rparr>)
            else if startsWith line (js ''Authentication successful.'') then
              (let w1 = w\<lparr>state := Connected\<rparr>;
                   w2 = (case timeout w1 of
                           None \<Rightarrow> w1
                         | Some t \<Rightarrow> w1\<lparr>timers := clearTimeout (timers w1) t, timeout := None\<rparr>)
               in w2\<lparr>promises := settle (promises w2) (data_promise (sockets w ! s)) Resolved\<rparr>)
            else if startsWith line (js ''Wrong password.'') then
              w\<lparr>promises :=
                  settle (promises w) (data_promise (sockets w ! s)) (Rejected WrongPassword)\<rparr>
            else w)
         else
           (case messageHooks w of
              None \<Rightarrow> w
            | Some l \<Rightarrow> w\<lparr>delivered := delivered w @ [(l, Message line)]\<rparr>))
      else w)"

text \<open>The 'close' and 'error' listeners, lines 30-31, and a 'drain' event of socket \<open>s\<close>.\<close>

definition on_close :: "econ \<Rightarrow> nat \<Rightarrow> bool \<Rightarrow> econ" where
  "on_close w s hadError =
     (if s < length (sockets w) then
        (case closeHook w of
           None \<Rightarrow> w
         | Some l \<Rightarrow> w\<lparr>delivered := delivered w @ [(l, Closed hadError)]\<rparr>)
      else w)"

definition on_error :: "econ \<Rightarrow> nat \<Rightarrow> jsstring \<Rightarrow> econ" where
  "on_error w s err =
     (if s < length (sockets w) then
        (case errorHook w of
           None \<Rightarrow> w
         | Some l \<Rightarrow> w\<lparr>delivered := delivered w @ [(l, Errored err)]\<rparr>)
      else w)"

definition on_drain :: "econ \<Rightarrow> nat \<Rightarrow> econ" where
  "on_drain w s =
     (if s < length (sockets w) then
        w\<lparr>promises := foldl (\<lambda>ps p. settle ps p Resolved) (promises w) (drain_once (sockets w ! s)),
          sockets := (sockets w)[s := (sockets w ! s)\<lparr>drain_once := []\<rparr>]\<rparr>
      else w)"

text \<open>
  \<^verbatim>\<open>send(command)\<close>, lines 69-89. \<open>flushed\<close> is what \<^verbatim>\<open>conn.write\<close> returns. The method is
  \<^verbatim>\<open>async\<close>: a \<^verbatim>\<open>throw\<close> is a rejected promise.
\<close>

datatype command = Single jsstring | Many "jsstring list"

definition serialize :: "command \<Rightarrow> jsstring" where
  "serialize cmd =
     (case cmd of
        Many cs \<Rightarrow> join cs (js ''\<newline>'') @ js ''\<newline>''
      | Single c \<Rightarrow> c @ js ''\<newline>'')"

definition send :: "econ \<Rightarrow> command \<Rightarrow> bool \<Rightarrow> econ \<times> nat" where
  "send w cmd flushed =
     (let pid = length (promises w) in
      if state w = Connected then
        (case conn w of
           None \<Rightarrow> (w\<lparr>promises := promises w @ [Rejected TypeError]\<rparr>, pid)
         | Some c \<Rightarrow>
             (let w1 = w\<lparr>sockets := sock_write (sockets w) c (serialize cmd)\<rparr> in
              if \<not> flushed then
                (w1\<lparr>promises := promises w1 @ [Pending],
                    sockets := (if c < length (sockets w1)
                                then (sockets w1)[c := (sockets w1 ! c)
                                       \<lparr>drain_once := drain_once (sockets w1 ! c) @ [pid]\<rparr>]
                                else sockets w1)\<rparr>, pid)
              else (w1\<lparr>promises := promises w1 @ [Resolved]\<rparr>, pid)))
      else (w\<lparr>promises := promises w @ [Rejected NotEstablished]\<rparr>, pid))"

text \<open>\<^verbatim>\<open>on(event, listener)\<close>, lines 94-103.\<close>

datatype event_name = EvMessage | EvClose | EvError | EvOther

definition on :: "econ \<Rightarrow> event_name \<Rightarrow> nat \<Rightarrow> econ" where
  "on w event listener =
     (if event = EvMessage then w\<lparr>messageHooks := Some listener\<rparr>
      else if event = EvClose then w\<lparr>closeHook := Some listener\<rparr>
      else if event = EvError then w\<lparr>errorHook := Some listener\<rparr>
      else w)"

subsection \<open>Runs\<close>

text \<open>
  What can happen to an instance: a call of one of its methods, or a callback of the
  runtime. A run folds the events over the state.
\<close>

datatype event =
    Connect
  | Disconnect
  | Send command bool
  | On event_name nat
  | TimerFires nat
  | Data nat jsstring
  | Drain nat
  | Close nat bool
  | Error nat jsstring

fun step :: "econ \<Rightarrow> event \<Rightarrow> econ" where
  "step w Connect = fst (connect w)"
| "step w Disconnect = snd (disconnect w)"
| "step w (Send cmd flushed) = fst (send w cmd flushed)"
| "step w (On event listener) = on w event listener"
| "step w (TimerFires t) = fire_timer w t"
| "step w (Data s d) = on_data w s d"
| "step w (Drain s) = on_drain w s"
| "step w (Close s hadError) = on_close w s hadError"
| "step w (Error s err) = on_error w s err"

definition run :: "econ \<Rightarrow> event list \<Rightarrow> econ" where
  "run w evs = foldl step w evs"

subsection \<open>The one-shot helper\<close>

text \<open>
  \<^verbatim>\<open>quickfire\<close>, lines 111-135, is an \<^verbatim>\<open>async\<close> function: it runs up to an \<^verbatim>\<open>await\<close> (or up
  to the \<^verbatim>\<open>setTimeout\<close> of the collecting branch), and goes on when the awaited promise
  is settled. The phase says where it waits. The instance is local to the call, so only
  callbacks of the runtime reach it, and the collection timer.
\<close>

datatype qf_phase =
    AwaitConnect nat
  | AwaitSendCollect nat
  | AwaitSendPlain nat
  | AwaitWindow
  | Done

text \<open>The promise \<^verbatim>\<open>quickfire\<close> returns: \<open>QFulfilled None\<close> is a plain \<^verbatim>\<open>return\<close>.\<close>

datatype qf_result = QPending | QFulfilled "jsstring list option" | QRejected econ_error

record quickfire_state =
  inst :: econ
  command_arg :: command
  collectResponsesFor :: int
  write_flushed :: bool
  phase :: qf_phase
  result :: qf_result

text \<open>The listener \<^verbatim>\<open>msg => responses.push(msg)\<close> and the array it fills.\<close>

definition responses_listener :: nat where
  "responses_listener = 0"


definition promise_at :: "econ \<Rightarrow> nat \<Rightarrow> promise" where
  "promise_at w p = (if p < length (promises w) then promises w ! p else Pending)"

text \<open>After \<^verbatim>\<open>await econ.send(command)\<close>, in either branch (lines 123-129 and 131-133).\<close>

definition qf_await_send :: "quickfire_state \<Rightarrow> quickfire_state" where
  "qf_await_send q =
     (case phase q of
        AwaitSendCollect p \<Rightarrow>
          (case promise_at (inst q) p of
             Pending \<Rightarrow> q
           | Rejected e \<Rightarrow> q\<lparr>phase := Done, result := QRejected e\<rparr>
           | Resolved \<Rightarrow> q\<lparr>phase := AwaitWindow\<rparr>)
      | AwaitSendPlain p \<Rightarrow>
          (case promise_at (inst q) p of
             Pending \<Rightarrow> q
           | Rejected e \<Rightarrow> q\<lparr>phase := Done, result := QRejected e\<rparr>
           | Resolved \<Rightarrow>
               (case disconnect (inst q) of
                  (Some e, w) \<Rightarrow> q\<lparr>inst := w, phase := Done, result := QRejected e\<rparr>
                | (None, w) \<Rightarrow> q\<lparr>inst := w, phase := Done, result := QFulfilled None\<rparr>))
      | _ \<Rightarrow> q)"

text \<open>After \<^verbatim>\<open>await econ.connect()\<close>: the test of line 118 and the branch taken.\<close>

definition qf_after_connect :: "quickfire_state \<Rightarrow> quickfire_state" where
  "qf_after_connect q =
     (if collectResponsesFor q \<noteq> 0 then
        (let w1 = on (inst q) EvMessage responses_listener;
             (w2, p) = send w1 (command_arg q) (write_flushed q)
         in qf_await_send (q\<lparr>inst := w2, phase := AwaitSendCollect p\<rparr>))
      else
        (let (w2, p) = send (inst q) (command_arg q) (write_flushed q)
         in qf_await_send (q\<lparr>inst := w2, phase := AwaitSendPlain p\<rparr>)))"

definition qf_resume :: "quickfire_state \<Rightarrow> quickfire_state" where
  "qf_resume q =
     (case phase q of
        AwaitConnect p \<Rightarrow>
          (case promise_at (inst q) p of
             Pending \<Rightarrow> q
           | Rejected e \<Rightarrow> q\<lparr>phase := Done, result := QRejected e\<rparr>
           | Resolved \<Rightarrow> qf_after_connect q)
      | AwaitSendCollect p \<Rightarrow> qf_await_send q
      | AwaitSendPlain p \<Rightarrow> qf_await_send q
      | AwaitWindow \<Rightarrow> q
      | Done \<Rightarrow> q)"

text \<open>
  The call itself: the third parameter has the default 0, the instance is created and
  \<^verbatim>\<open>connect()\<close> awaited; its result may be settled already. \<open>flushed\<close> is what \<^verbatim>\<open>conn.write\<close>
  will return to \<^verbatim>\<open>send\<close>.
\<close>

definition quickfire :: "EconOptions \<Rightarrow> command \<Rightarrow> int option \<Rightarrow> bool \<Rightarrow> quickfire_state" where
  "quickfire options cmd window flushed =
     (let collect = (case window of None \<Rightarrow> 0 | Some n \<Rightarrow> n);
          (w, p) = connect (new_econ options)
      in qf_resume \<lparr>inst = w, command_arg = cmd, collectResponsesFor = collect,
                     write_flushed = flushed, phase = AwaitConnect p, result = QPending\<rparr>)"







subsection \<open>Invariants of the instance\<close>

text \<open>Handles point into the tables of the runtime, and closures hold promises that exist.\<close>

definition handshake_promises :: "econ \<Rightarrow> nat list" where
  "handshake_promises w = map data_promise (sockets w) @ map timer_promise (timers w)"

definition drain_waiters :: "econ \<Rightarrow> nat list list" where
  "drain_waiters w = map drain_once (sockets w)"

definition wf_econ :: "econ \<Rightarrow> bool" where
  "wf_econ w \<longleftrightarrow>
     (\<forall>c. conn w = Some c \<longrightarrow> c < length (sockets w)) \<and>
     (\<forall>p \<in> set (handshake_promises w). p < length (promises w)) \<and>
     (\<forall>ps \<in> set (drain_waiters w). \<forall>p \<in> set ps. p < length (promises w))"

text \<open>
  A socket exists only for a TCP port, and with a TCP port a state other than Disconnected
  has a transport.
\<close>

definition port_ok :: "econ \<Rightarrow> bool" where
  "port_ok w \<longleftrightarrow>
     (sockets w \<noteq> [] \<longrightarrow> validatePort (opt_port w)) \<and>
     (validatePort (opt_port w) \<and> state w \<noteq> Disconnected \<longrightarrow> conn w \<noteq> None)"

text \<open>The timer handle against the state.\<close>

definition timer_ok :: "econ \<Rightarrow> bool" where
  "timer_ok w \<longleftrightarrow>
     (validatePort (opt_port w) \<and> state w = Connecting \<longrightarrow>
        (\<exists>t. timeout w = Some t \<and> t < length (timers w) \<and> status (timers w ! t) = Armed)) \<and>
     (state w = Connected \<longrightarrow> timeout w = None)"

subsection \<open>Events that leave a handshake open\<close>


subsection \<open>A send() waiting for 'drain'\<close>

text \<open>
  Promise \<open>p\<close> is pending and held by a \<^verbatim>\<open>once('drain', ...)\<close> listener of socket \<open>c\<close>, and by
  no other closure.
\<close>

definition waiting_on :: "nat \<Rightarrow> nat \<Rightarrow> econ \<Rightarrow> bool" where
  "waiting_on p c w \<longleftrightarrow>
     p < length (promises w) \<and> promises w ! p = Pending \<and>
     p \<notin> set (handshake_promises w) \<and>
     c < length (sockets w) \<and> p \<in> set (drain_waiters w ! c) \<and>
     (\<forall>i < length (sockets w). i \<noteq> c \<longrightarrow> p \<notin> set (drain_waiters w ! i))"

subsection \<open>A quickfire call that collects nothing\<close>








text \<open>The options used for concrete runs.\<close>

definition example_options :: EconOptions where
  "example_options = \<lparr>host = None, port = 8303, password = js ''pw'', timeout_opt = None\<rparr>"

section \<open>Properties\<close>

subsection \<open>What each method leaves in each field\<close>

lemma new_econ_fields:
  "state (new_econ opts) = Disconnected" "conn (new_econ opts) = None"
  "timeout (new_econ opts) = None" "sockets (new_econ opts) = []"
  "timers (new_econ opts) = []" "promises (new_econ opts) = []"
  "messageHooks (new_econ opts) = None" "delivered (new_econ opts) = []"
  "uncaught (new_econ opts) = []" "opt_password (new_econ opts) = password opts"
  by (simp_all add: new_econ_def)

lemma connect_fields:
  "snd (connect w) = length (promises w)"
  "state (fst (connect w)) = Connecting"
  "length (promises (fst (connect w))) = Suc (length (promises w))"
  "take (length (promises w)) (promises (fst (connect w))) = promises w"
  "messageHooks (fst (connect w)) = messageHooks w"
  "closeHook (fst (connect w)) = closeHook w"
  "errorHook (fst (connect w)) = errorHook w"
  "delivered (fst (connect w)) = delivered w"
  "uncaught (fst (connect w)) = uncaught w"
  "opt_password (fst (connect w)) = opt_password w"
  "opt_port (fst (connect w)) = opt_port w"
  by (simp_all add: connect_def Let_def)

lemma connect_valid:
  assumes "validatePort (opt_port w)"
  shows "conn (fst (connect w)) = Some (length (sockets w))"
    and "timeout (fst (connect w)) = Some (length (timers w))"
    and "promises (fst (connect w)) = promises w @ [Pending]"
    and "length (sockets (fst (connect w))) = Suc (length (sockets w))"
    and "length (timers (fst (connect w))) = Suc (length (timers w))"
    and "take (length (sockets w)) (sockets (fst (connect w))) = sockets w"
    and "take (length (timers w)) (timers (fst (connect w))) = timers w"
  using assms by (simp_all add: connect_def Let_def)

lemma connect_invalid:
  assumes "\<not> validatePort (opt_port w)"
  shows "conn (fst (connect w)) = conn w"
    and "timeout (fst (connect w)) = timeout w"
    and "promises (fst (connect w)) = promises w @ [Rejected BadPort]"
    and "sockets (fst (connect w)) = sockets w"
    and "timers (fst (connect w)) = timers w"
  using assms by (simp_all add: connect_def Let_def)

lemma connect_new_socket:
  assumes "validatePort (opt_port w)"
  shows "written (sockets (fst (connect w)) ! length (sockets w)) = []"
    and "ended (sockets (fst (connect w)) ! length (sockets w)) = False"
    and "data_promise (sockets (fst (connect w)) ! length (sockets w)) = length (promises w)"
    and "drain_once (sockets (fst (connect w)) ! length (sockets w)) = []"
  using assms by (simp_all add: connect_def Let_def)

lemma connect_new_timer:
  assumes "validatePort (opt_port w)"
  shows "status (timers (fst (connect w)) ! length (timers w)) = Armed"
    and "timer_promise (timers (fst (connect w)) ! length (timers w)) = length (promises w)"
  using assms by (simp_all add: connect_def Let_def)

lemma connect_old:
  "i < length (sockets w) \<Longrightarrow> sockets (fst (connect w)) ! i = sockets w ! i"
  "j < length (timers w) \<Longrightarrow> timers (fst (connect w)) ! j = timers w ! j"
  by (simp_all add: connect_def Let_def nth_append)

lemma example_port:
  "validatePort (opt_port (new_econ example_options))"
  "validatePort (port example_options)"
  by (simp_all add: new_econ_def example_options_def validatePort_def)

lemma new_econ_port: "opt_port (new_econ opts) = port opts"
  by (simp add: new_econ_def)

lemma send_not_connected:
  "state w \<noteq> Connected \<Longrightarrow>
   send w cmd flushed =
     (w\<lparr>promises := promises w @ [Rejected NotEstablished]\<rparr>, length (promises w))"
  by (simp add: send_def Let_def)

lemma map_update_same:
  "f v = f (xs ! i) \<Longrightarrow> map f (xs[i := v]) = map f xs"
  by (induction xs arbitrary: i) (auto split: nat.splits)

lemma settle_length [simp]: "length (settle ps p v) = length ps"
  by (simp add: settle_def)

lemma sock_write_length [simp]: "length (sock_write ss c d) = length ss"
  by (simp add: sock_write_def)

lemma sock_end_length [simp]: "length (sock_end ss c) = length ss"
  by (simp add: sock_end_def)

lemma clearTimeout_length [simp]: "length (clearTimeout ts t) = length ts"
  by (simp add: clearTimeout_def)

lemma sock_write_maps [simp]:
  "map data_promise (sock_write ss c d) = map data_promise ss"
  "map drain_once (sock_write ss c d) = map drain_once ss"
  "map ended (sock_write ss c d) = map ended ss"
  by (simp_all add: sock_write_def map_update_same)

lemma sock_end_maps [simp]:
  "map data_promise (sock_end ss c) = map data_promise ss"
  "map drain_once (sock_end ss c) = map drain_once ss"
  "map written (sock_end ss c) = map written ss"
  by (simp_all add: sock_end_def map_update_same)

lemma clearTimeout_maps [simp]:
  "map timer_promise (clearTimeout ts t) = map timer_promise ts"
  by (simp_all add: clearTimeout_def map_update_same)

lemma foldl_settle_length [simp]:
  "length (foldl (\<lambda>ps p. settle ps p v) ps0 xs) = length ps0"
  by (induction xs arbitrary: ps0) simp_all

text \<open>disconnect\<close>

lemma disconnect_cases:
  "disconnect w =
     (case conn w of
        None \<Rightarrow> (if state w = Disconnected then (None, w) else (Some TypeError, w\<lparr>state := Disconnected\<rparr>))
      | Some c \<Rightarrow> (None, w\<lparr>state := Disconnected, sockets := sock_end (sockets w) c, conn := None\<rparr>))"
  by (simp add: disconnect_def Let_def split: option.splits)

lemma disconnect_fields:
  "state (snd (disconnect w)) = Disconnected"
  "timeout (snd (disconnect w)) = timeout w"
  "timers (snd (disconnect w)) = timers w"
  "promises (snd (disconnect w)) = promises w"
  "messageHooks (snd (disconnect w)) = messageHooks w"
  "delivered (snd (disconnect w)) = delivered w"
  "length (sockets (snd (disconnect w))) = length (sockets w)"
  "map data_promise (sockets (snd (disconnect w))) = map data_promise (sockets w)"
  "map drain_once (sockets (snd (disconnect w))) = map drain_once (sockets w)"
  "map written (sockets (snd (disconnect w))) = map written (sockets w)"
  by (simp_all add: disconnect_cases split: option.splits)

lemma disconnect_conn:
  "conn w = Some c \<Longrightarrow> disconnect w = (None, w\<lparr>state := Disconnected, sockets := sock_end (sockets w) c, conn := None\<rparr>)"
  by (simp add: disconnect_cases)


lemma disconnect_closures:
  "handshake_promises (snd (disconnect w)) = handshake_promises w"
  "drain_waiters (snd (disconnect w)) = drain_waiters w"
  by (simp_all add: handshake_promises_def drain_waiters_def disconnect_fields)

lemma disconnect_conn_after:
  "conn (snd (disconnect w)) = None"
  by (simp add: disconnect_cases split: option.splits)

lemma wf_disconnect: "wf_econ w \<Longrightarrow> wf_econ (snd (disconnect w))"
  by (simp add: wf_econ_def disconnect_closures disconnect_fields disconnect_conn_after)

lemma wf_new: "wf_econ (new_econ opts)"
  by (simp add: wf_econ_def new_econ_def handshake_promises_def drain_waiters_def)

lemma connect_closures:
  assumes "validatePort (opt_port w)"
  shows "handshake_promises (fst (connect w)) =
     map data_promise (sockets w) @ [length (promises w)] @ map timer_promise (timers w) @ [length (promises w)]"
    and "drain_waiters (fst (connect w)) = drain_waiters w @ [[]]"
  using assms by (simp_all add: handshake_promises_def drain_waiters_def connect_def Let_def)

lemma connect_closures_invalid:
  assumes "\<not> validatePort (opt_port w)"
  shows "handshake_promises (fst (connect w)) = handshake_promises w"
    and "drain_waiters (fst (connect w)) = drain_waiters w"
  using assms by (simp_all add: handshake_promises_def drain_waiters_def connect_invalid)

lemma wf_connect: "wf_econ w \<Longrightarrow> wf_econ (fst (connect w))"
proof (cases "validatePort (opt_port w)")
  case True
  assume "wf_econ w"
  then show ?thesis
    unfolding wf_econ_def connect_closures [OF True]
    by (auto simp add: connect_valid [OF True] handshake_promises_def less_Suc_eq)
next
  case False
  assume "wf_econ w"
  then show ?thesis
    unfolding wf_econ_def connect_closures_invalid [OF False]
    by (auto simp add: connect_invalid [OF False] less_Suc_eq)
qed

lemma wf_on: "wf_econ w \<Longrightarrow> wf_econ (on w e l)"
  by (simp add: wf_econ_def on_def handshake_promises_def drain_waiters_def)

lemma wf_on_close: "wf_econ w \<Longrightarrow> wf_econ (on_close w s b)"
  by (simp add: wf_econ_def on_close_def handshake_promises_def drain_waiters_def split: option.splits)

lemma wf_on_error: "wf_econ w \<Longrightarrow> wf_econ (on_error w s b)"
  by (simp add: wf_econ_def on_error_def handshake_promises_def drain_waiters_def split: option.splits)

text \<open>send\<close>

lemma send_connected:
  "state w = Connected \<Longrightarrow> conn w = Some c \<Longrightarrow> c < length (sockets w) \<Longrightarrow>
   send w cmd flushed =
     (w\<lparr>sockets := (if flushed then sock_write (sockets w) c (serialize cmd)
                    else (sock_write (sockets w) c (serialize cmd))
                           [c := (sock_write (sockets w) c (serialize cmd) ! c)
                              \<lparr>drain_once := drain_once (sockets w ! c) @ [length (promises w)]\<rparr>]),
        promises := promises w @ [if flushed then Resolved else Pending]\<rparr>, length (promises w))"
  by (simp add: send_def Let_def sock_write_def)

lemma send_fields:
  "snd (send w cmd flushed) = length (promises w)"
  "state (fst (send w cmd flushed)) = state w"
  "conn (fst (send w cmd flushed)) = conn w"
  "timeout (fst (send w cmd flushed)) = timeout w"
  "timers (fst (send w cmd flushed)) = timers w"
  "messageHooks (fst (send w cmd flushed)) = messageHooks w"
  "delivered (fst (send w cmd flushed)) = delivered w"
  "length (sockets (fst (send w cmd flushed))) = length (sockets w)"
  "length (promises (fst (send w cmd flushed))) = Suc (length (promises w))"
  "take (length (promises w)) (promises (fst (send w cmd flushed))) = promises w"
  "map data_promise (sockets (fst (send w cmd flushed))) = map data_promise (sockets w)"
  "map ended (sockets (fst (send w cmd flushed))) = map ended (sockets w)"
  by (simp_all add: send_def Let_def map_update_same split: option.splits)

lemma send_closures:
  "handshake_promises (fst (send w cmd flushed)) = handshake_promises w"
  by (simp add: handshake_promises_def send_fields)


lemma drain_waiters_length: "length (drain_waiters w) = length (sockets w)"
  by (simp add: drain_waiters_def)

lemma sock_write_nth:
  "c < length ss \<Longrightarrow> drain_once (sock_write ss c d ! c) = drain_once (ss ! c)"
  "c < length ss \<Longrightarrow> written (sock_write ss c d ! c) = written (ss ! c) @ [d]"
  by (simp_all add: sock_write_def)

lemma send_waiters:
  "drain_waiters (fst (send w cmd flushed)) =
     (if state w = Connected \<and> \<not> flushed then
        (case conn w of None \<Rightarrow> drain_waiters w
         | Some c \<Rightarrow> (drain_waiters w)[c := drain_waiters w ! c @ [length (promises w)]])
      else drain_waiters w)"
  by (simp add: drain_waiters_def send_def Let_def map_update sock_write_nth list_update_beyond
        split: option.splits)

lemma in_set_updateD: "x \<in> set (xs[i := v]) \<Longrightarrow> x = v \<or> x \<in> set xs"
  using set_update_subset_insert by fastforce

lemma wf_send: "wf_econ w \<Longrightarrow> wf_econ (fst (send w cmd flushed))"
proof -
  assume wf: "wf_econ w"
  have "\<forall>ps \<in> set (drain_waiters (fst (send w cmd flushed))). \<forall>p \<in> set ps. p < Suc (length (promises w))"
  proof (intro ballI)
    fix ps p assume ps: "ps \<in> set (drain_waiters (fst (send w cmd flushed)))" and p: "p \<in> set ps"
    show "p < Suc (length (promises w))"
    proof (cases "ps \<in> set (drain_waiters w)")
      case True
      with wf p show ?thesis by (auto simp add: wf_econ_def less_Suc_eq)
    next
      case False
      with ps obtain c where c: "conn w = Some c" "ps = drain_waiters w ! c @ [length (promises w)]"
        by (auto simp add: send_waiters split: if_splits option.splits dest!: in_set_updateD)
      from wf c have "c < length (drain_waiters w)"
        by (simp add: wf_econ_def drain_waiters_length)
      then have "drain_waiters w ! c \<in> set (drain_waiters w)" by simp
      with wf p c show ?thesis by (auto simp add: wf_econ_def less_Suc_eq)
    qed
  qed
  with wf show ?thesis
    unfolding wf_econ_def send_closures send_fields
    by (auto simp add: less_Suc_eq)
qed


text \<open>on_data\<close>

lemma on_data_password:
  "s < length (sockets w) \<Longrightarrow> state w = Connecting \<Longrightarrow> conn w = Some c \<Longrightarrow>
   startsWith (trimEnd d) (js ''Enter password:'') \<Longrightarrow>
   on_data w s d = w\<lparr>sockets := sock_write (sockets w) c (opt_password w @ js ''\<newline>'')\<rparr>"
  by (simp add: on_data_def Let_def)

lemma on_data_success:
  "s < length (sockets w) \<Longrightarrow> state w = Connecting \<Longrightarrow>
   \<not> startsWith (trimEnd d) (js ''Enter password:'') \<Longrightarrow>
   startsWith (trimEnd d) (js ''Authentication successful.'') \<Longrightarrow>
   on_data w s d =
     w\<lparr>state := Connected,
       timers := (case timeout w of None \<Rightarrow> timers w | Some t \<Rightarrow> clearTimeout (timers w) t),
       timeout := None,
       promises := settle (promises w) (data_promise (sockets w ! s)) Resolved\<rparr>"
  by (simp add: on_data_def Let_def split: option.splits)


lemma on_data_ignored:
  "s < length (sockets w) \<Longrightarrow> state w = Connecting \<Longrightarrow>
   \<not> startsWith (trimEnd d) (js ''Enter password:'') \<Longrightarrow>
   \<not> startsWith (trimEnd d) (js ''Authentication successful.'') \<Longrightarrow>
   \<not> startsWith (trimEnd d) (js ''Wrong password.'') \<Longrightarrow>
   on_data w s d = w"
  by (simp add: on_data_def Let_def)

lemma on_data_message:
  "s < length (sockets w) \<Longrightarrow> state w \<noteq> Connecting \<Longrightarrow>
   on_data w s d =
     (case messageHooks w of None \<Rightarrow> w
      | Some l \<Rightarrow> w\<lparr>delivered := delivered w @ [(l, Message (trimEnd d))]\<rparr>)"
  by (simp add: on_data_def Let_def)

lemma on_data_no_socket: "\<not> s < length (sockets w) \<Longrightarrow> on_data w s d = w"
  by (simp add: on_data_def)

lemma on_data_fields:
  "conn (on_data w s d) = conn w"
  "messageHooks (on_data w s d) = messageHooks w"
  "length (sockets (on_data w s d)) = length (sockets w)"
  "length (timers (on_data w s d)) = length (timers w)"
  "length (promises (on_data w s d)) = length (promises w)"
  "map data_promise (sockets (on_data w s d)) = map data_promise (sockets w)"
  "map drain_once (sockets (on_data w s d)) = map drain_once (sockets w)"
  "map ended (sockets (on_data w s d)) = map ended (sockets w)"
  "map timer_promise (timers (on_data w s d)) = map timer_promise (timers w)"
  by (simp_all add: on_data_def Let_def split: option.splits)

lemma on_data_state:
  "state (on_data w s d) = Connecting \<longleftrightarrow>
     state w = Connecting \<and>
     (s < length (sockets w) \<longrightarrow>
        startsWith (trimEnd d) (js ''Enter password:'') \<or>
        \<not> startsWith (trimEnd d) (js ''Authentication successful.''))"
  "state (on_data w s d) = Disconnected \<longleftrightarrow> state w = Disconnected"
  by (auto simp add: on_data_def Let_def split: option.splits)

lemma on_data_closures:
  "handshake_promises (on_data w s d) = handshake_promises w"
  "drain_waiters (on_data w s d) = drain_waiters w"
  by (simp_all add: handshake_promises_def drain_waiters_def on_data_fields)

lemma wf_on_data: "wf_econ w \<Longrightarrow> wf_econ (on_data w s d)"
  unfolding wf_econ_def on_data_closures on_data_fields on_data_state
  by simp

text \<open>fire_timer\<close>

lemma fire_timer_idle:
  "\<not> (t < length (timers w) \<and> status (timers w ! t) = Armed) \<Longrightarrow> fire_timer w t = w"
  by (auto simp add: fire_timer_def)

lemma fire_timer_not_connecting:
  "t < length (timers w) \<Longrightarrow> status (timers w ! t) = Armed \<Longrightarrow> state w \<noteq> Connecting \<Longrightarrow>
   fire_timer w t = w\<lparr>timers := (timers w)[t := (timers w ! t)\<lparr>status := Fired\<rparr>]\<rparr>"
  by (simp add: fire_timer_def Let_def)


lemma fire_timer_fields:
  "timeout (fire_timer w t) = timeout w"
  "messageHooks (fire_timer w t) = messageHooks w"
  "delivered (fire_timer w t) = delivered w"
  "length (sockets (fire_timer w t)) = length (sockets w)"
  "length (timers (fire_timer w t)) = length (timers w)"
  "length (promises (fire_timer w t)) = length (promises w)"
  "map data_promise (sockets (fire_timer w t)) = map data_promise (sockets w)"
  "map drain_once (sockets (fire_timer w t)) = map drain_once (sockets w)"
  "map written (sockets (fire_timer w t)) = map written (sockets w)"
  "map timer_promise (timers (fire_timer w t)) = map timer_promise (timers w)"
  by (simp_all add: fire_timer_def Let_def disconnect_cases map_update_same split: option.splits)

lemma fire_timer_state:
  "state (fire_timer w t) =
     (if t < length (timers w) \<and> status (timers w ! t) = Armed \<and> state w = Connecting
      then Disconnected else state w)"
  by (simp add: fire_timer_def Let_def disconnect_cases split: option.splits)

lemma fire_timer_conn:
  "conn (fire_timer w t) =
     (if t < length (timers w) \<and> status (timers w ! t) = Armed \<and> state w = Connecting
      then None else conn w)"
  by (simp add: fire_timer_def Let_def disconnect_cases split: option.splits)

lemma fire_timer_closures:
  "handshake_promises (fire_timer w t) = handshake_promises w"
  "drain_waiters (fire_timer w t) = drain_waiters w"
  by (simp_all add: handshake_promises_def drain_waiters_def fire_timer_fields)

lemma wf_fire_timer: "wf_econ w \<Longrightarrow> wf_econ (fire_timer w t)"
  unfolding wf_econ_def fire_timer_closures fire_timer_fields fire_timer_state fire_timer_conn
  by simp

text \<open>on_drain\<close>

lemma on_drain_fields:
  "state (on_drain w s) = state w"
  "conn (on_drain w s) = conn w"
  "timeout (on_drain w s) = timeout w"
  "timers (on_drain w s) = timers w"
  "messageHooks (on_drain w s) = messageHooks w"
  "delivered (on_drain w s) = delivered w"
  "length (sockets (on_drain w s)) = length (sockets w)"
  "length (promises (on_drain w s)) = length (promises w)"
  "map data_promise (sockets (on_drain w s)) = map data_promise (sockets w)"
  "map written (sockets (on_drain w s)) = map written (sockets w)"
  by (simp_all add: on_drain_def map_update_same)

lemma on_drain_closures:
  "handshake_promises (on_drain w s) = handshake_promises w"
  "drain_waiters (on_drain w s) = (drain_waiters w)[s := []]"
  by (simp_all add: handshake_promises_def drain_waiters_def on_drain_fields)
     (simp add: on_drain_def map_update list_update_beyond)

lemma wf_on_drain: "wf_econ w \<Longrightarrow> wf_econ (on_drain w s)"
  unfolding wf_econ_def on_drain_closures on_drain_fields
  by (auto dest!: in_set_updateD)

lemma wf_step: "wf_econ w \<Longrightarrow> wf_econ (step w ev)"
  by (cases ev)
     (simp_all add: wf_connect wf_disconnect wf_send wf_on wf_fire_timer wf_on_data wf_on_drain
        wf_on_close wf_on_error)

lemma run_Nil: "run w [] = w"
  by (simp add: run_def)

lemma run_Cons: "run w (ev # evs) = run (step w ev) evs"
  by (simp add: run_def)

lemma run_snoc: "run w (evs @ [ev]) = step (run w evs) ev"
  by (simp add: run_def)

lemma run_append: "run w (evs @ evs') = run (run w evs) evs'"
  by (simp add: run_def)

lemma wf_run: "wf_econ w \<Longrightarrow> wf_econ (run w evs)"
  by (induction evs arbitrary: w) (simp_all add: run_Nil run_Cons wf_step)

subsection \<open>The port of an instance\<close>

lemma port_step: "opt_port (step w ev) = opt_port w"
  by (cases ev)
     (simp_all add: connect_fields disconnect_cases send_def Let_def on_def fire_timer_def
        on_data_def on_drain_def on_close_def on_error_def split: option.splits)

lemma port_fields:
  "opt_port (snd (disconnect w)) = opt_port w"
  "opt_port (fst (send w cmd fl)) = opt_port w"
  "opt_port (on w x l) = opt_port w"
  "opt_port (fire_timer w t) = opt_port w"
  "opt_port (on_data w s d) = opt_port w"
  "opt_port (on_drain w s) = opt_port w"
  "opt_port (on_close w s b) = opt_port w"
  "opt_port (on_error w s err) = opt_port w"
  using port_step [of w Disconnect] port_step [of w "Send cmd fl"] port_step [of w "On x l"]
    port_step [of w "TimerFires t"] port_step [of w "Data s d"] port_step [of w "Drain s"]
    port_step [of w "Close s b"] port_step [of w "Error s err"]
  by simp_all

lemma port_run: "opt_port (run w evs) = opt_port w"
  by (induction evs arbitrary: w) (simp_all add: run_Nil run_Cons port_step)

lemma sockets_length_step:
  "ev \<noteq> Connect \<Longrightarrow> length (sockets (step w ev)) = length (sockets w)"
  by (cases ev)
     (simp_all add: disconnect_fields send_fields on_def fire_timer_fields on_data_fields
        on_drain_fields on_close_def on_error_def split: option.splits)

lemma sockets_empty_step:
  assumes "ev \<noteq> Connect"
  shows "sockets (step w ev) = [] \<longleftrightarrow> sockets w = []"
  using sockets_length_step [OF assms, of w] by (metis length_0_conv)

lemma transport_kept_step:
  assumes "ev \<noteq> Connect" and "state (step w ev) \<noteq> Disconnected"
  shows "state w \<noteq> Disconnected \<and> conn (step w ev) = conn w"
proof (cases ev)
  case Connect
  with assms show ?thesis by simp
next
  case Disconnect
  with assms show ?thesis by (simp add: disconnect_fields)
next
  case (Send cmd fl)
  with assms show ?thesis by (simp add: send_fields)
next
  case (On x l)
  with assms show ?thesis by (simp add: on_def split: if_splits)
next
  case (TimerFires t)
  with assms show ?thesis
    by (auto simp add: fire_timer_state fire_timer_conn split: if_splits)
next
  case (Data s d)
  with assms show ?thesis by (simp add: on_data_state on_data_fields)
next
  case (Drain s)
  with assms show ?thesis by (simp add: on_drain_fields)
next
  case (Close s b)
  with assms show ?thesis by (simp add: on_close_def split: if_splits option.splits)
next
  case (Error s x)
  with assms show ?thesis by (simp add: on_error_def split: if_splits option.splits)
qed

lemma port_ok_new: "port_ok (new_econ opts)"
  by (simp add: port_ok_def new_econ_fields)

lemma port_ok_step:
  assumes "port_ok w"
  shows "port_ok (step w ev)"
proof (cases "ev = Connect")
  case True
  show ?thesis
  proof (cases "validatePort (opt_port w)")
    case valid: True
    with True show ?thesis
      by (simp add: port_ok_def connect_fields connect_valid)
  next
    case invalid: False
    with True assms show ?thesis
      by (simp add: port_ok_def connect_fields connect_invalid)
  qed
next
  case False
  from assms sockets_empty_step [OF False, of w] transport_kept_step [OF False, of w]
  show ?thesis
    by (auto simp add: port_ok_def port_step)
qed

lemma port_ok_run: "port_ok w \<Longrightarrow> port_ok (run w evs)"
  by (induction evs arbitrary: w) (simp_all add: run_Nil run_Cons port_ok_step)

subsection \<open>connect() has no state guard\<close>

text \<open>
  C3, as the code has it. On an instance whose port is a TCP port, \<^verbatim>\<open>connect()\<close> does not
  look at the state: from every state it moves to Connecting, opens a new transport
  beside the existing ones, arms a new timer beside the existing ones, and returns a new
  pending promise. No usage error exists.
\<close>

theorem connect_unguarded:
  assumes "validatePort (opt_port w)"
  shows "state (fst (connect w)) = Connecting \<and>
   conn (fst (connect w)) = Some (length (sockets w)) \<and>
   length (sockets (fst (connect w))) = Suc (length (sockets w)) \<and>
   take (length (sockets w)) (sockets (fst (connect w))) = sockets w \<and>
   \<not> ended (sockets (fst (connect w)) ! length (sockets w)) \<and>
   timeout (fst (connect w)) = Some (length (timers w)) \<and>
   length (timers (fst (connect w))) = Suc (length (timers w)) \<and>
   take (length (timers w)) (timers (fst (connect w))) = timers w \<and>
   status (timers (fst (connect w)) ! length (timers w)) = Armed \<and>
   promises (fst (connect w)) ! snd (connect w) = Pending"
  using assms
  by (simp add: connect_fields connect_valid connect_new_socket connect_new_timer)

lemma first_connect:
  assumes "validatePort (port opts)"
  shows "status (timers (fst (connect (new_econ opts))) ! 0) = Armed"
    and "timer_promise (timers (fst (connect (new_econ opts))) ! 0) = 0"
    and "ended (sockets (fst (connect (new_econ opts))) ! 0) = False"
    and "written (sockets (fst (connect (new_econ opts))) ! 0) = []"
    and "data_promise (sockets (fst (connect (new_econ opts))) ! 0) = 0"
    and "conn (fst (connect (new_econ opts))) = Some 0"
    and "timeout (fst (connect (new_econ opts))) = Some 0"
    and "promises (fst (connect (new_econ opts))) = [Pending]"
    and "length (sockets (fst (connect (new_econ opts)))) = Suc 0"
    and "length (timers (fst (connect (new_econ opts)))) = Suc 0"
    and "drain_once (sockets (fst (connect (new_econ opts))) ! 0) = []"
  using assms connect_new_timer [of "new_econ opts"] connect_new_socket [of "new_econ opts"]
    connect_valid [of "new_econ opts"]
  by (simp_all add: new_econ_fields new_econ_port)

lemma second_connect:
  assumes "validatePort (port opts)"
  shows "conn (fst (connect (fst (connect (new_econ opts))))) = Some 1"
    and "timeout (fst (connect (fst (connect (new_econ opts))))) = Some 1"
    and "promises (fst (connect (fst (connect (new_econ opts))))) = [Pending, Pending]"
    and "length (sockets (fst (connect (fst (connect (new_econ opts)))))) = 2"
    and "map status (timers (fst (connect (fst (connect (new_econ opts)))))) = [Armed, Armed]"
  using assms
  by (simp_all add: connect_def Let_def new_econ_def)

text \<open>C3 as amended, on a second \<^verbatim>\<open>connect()\<close> issued while the first is Connecting.\<close>

theorem connect_unguarded_witness:
  "validatePort (opt_port (fst (connect (new_econ example_options)))) \<and>
   state (fst (connect (new_econ example_options))) = Connecting \<and>
   state (fst (connect (fst (connect (new_econ example_options))))) = Connecting \<and>
   conn (fst (connect (fst (connect (new_econ example_options))))) = Some 1 \<and>
   timeout (fst (connect (fst (connect (new_econ example_options))))) = Some 1 \<and>
   status (timers (fst (connect (fst (connect (new_econ example_options))))) ! 1) = Armed"
  using connect_unguarded [of "fst (connect (new_econ example_options))"]
  by (simp add: connect_fields example_port first_connect)

text \<open>
  C3 as stated fails: a second \<^verbatim>\<open>connect()\<close> issued while the first is Connecting returns
  a pending promise, not a failed one, and leaves two sockets and two armed timers.
\<close>

theorem connect_twice_counterexample:
  "state (fst (connect (new_econ example_options))) = Connecting \<and>
   promises (fst (connect (fst (connect (new_econ example_options)))))
     ! snd (connect (fst (connect (new_econ example_options)))) = Pending \<and>
   length (sockets (fst (connect (fst (connect (new_econ example_options)))))) = 2 \<and>
   conn (fst (connect (fst (connect (new_econ example_options))))) = Some 1 \<and>
   map status (timers (fst (connect (fst (connect (new_econ example_options)))))) =
     [Armed, Armed]"
  by (simp add: connect_fields second_connect example_port new_econ_fields)

subsection \<open>send() outside Connected\<close>

text \<open>
  C9. While the state is Disconnected or Connecting, \<^verbatim>\<open>send()\<close> fails with the
  'Connection not established' error and writes nothing: every socket is as it was.
\<close>

theorem send_not_connected_rejects:
  assumes "state w = Disconnected \<or> state w = Connecting"
  shows "promises (fst (send w cmd flushed)) ! snd (send w cmd flushed) =
           Rejected NotEstablished \<and>
         sockets (fst (send w cmd flushed)) = sockets w \<and>
         state (fst (send w cmd flushed)) = state w \<and>
         conn (fst (send w cmd flushed)) = conn w"
  using assms by (auto simp add: send_not_connected)

theorem send_not_connected_rejects_witness:
  "state (new_econ example_options) = Disconnected \<and>
   promises (fst (send (new_econ example_options) (Single (js ''status'')) True))
     ! snd (send (new_econ example_options) (Single (js ''status'')) True) =
       Rejected NotEstablished \<and>
   sockets (fst (send (new_econ example_options) (Single (js ''status'')) True)) = [] \<and>
   state (fst (connect (new_econ example_options))) = Connecting \<and>
   promises (fst (send (fst (connect (new_econ example_options))) (Single (js ''status'')) True))
     ! snd (send (fst (connect (new_econ example_options))) (Single (js ''status'')) True) =
       Rejected NotEstablished \<and>
   sockets (fst (send (fst (connect (new_econ example_options))) (Single (js ''status'')) True)) =
     sockets (fst (connect (new_econ example_options)))"
  using send_not_connected_rejects [of "new_econ example_options" "Single (js ''status'')" True]
    send_not_connected_rejects [of "fst (connect (new_econ example_options))"
      "Single (js ''status'')" True]
  by (simp add: new_econ_fields connect_fields connect_invalid connect_valid)

subsection \<open>Lines\<close>

lemma line_success:
  "startsWith (trimEnd (js ''Authentication successful.\<newline>'')) (js ''Authentication successful.'')"
  "\<not> startsWith (trimEnd (js ''Authentication successful.\<newline>'')) (js ''Enter password:'')"
  by (simp_all add: startsWith_def trimEnd_def isWhiteSpace_def js_def)

lemma line_password:
  "startsWith (trimEnd (js ''Enter password:\<newline>'')) (js ''Enter password:'')"
  by (simp_all add: startsWith_def trimEnd_def isWhiteSpace_def js_def)


lemma startsWith_exclusive:
  "startsWith l (js ''Authentication successful.'') \<Longrightarrow> \<not> startsWith l (js ''Enter password:'')"
  "startsWith l (js ''Wrong password.'') \<Longrightarrow> \<not> startsWith l (js ''Enter password:'')"
  "startsWith l (js ''Wrong password.'') \<Longrightarrow> \<not> startsWith l (js ''Authentication successful.'')"
  by (cases l; simp add: startsWith_def js_def)+

subsection \<open>The timer handle against the state\<close>

lemma timer_ok_new: "timer_ok (new_econ opts)"
  by (simp add: timer_ok_def new_econ_fields)

lemma timer_ok_connect: "timer_ok (fst (connect w))"
  by (simp add: timer_ok_def connect_fields connect_valid connect_new_timer)

lemma timer_ok_disconnect: "timer_ok (snd (disconnect w))"
  by (simp add: timer_ok_def disconnect_fields)

lemma timer_ok_send: "timer_ok w \<Longrightarrow> timer_ok (fst (send w cmd flushed))"
  by (simp add: timer_ok_def send_fields port_fields)

lemma timer_ok_on: "timer_ok w \<Longrightarrow> timer_ok (on w e l)"
  by (simp add: timer_ok_def port_fields) (simp add: on_def)

lemma timer_ok_fire_timer: "timer_ok w \<Longrightarrow> timer_ok (fire_timer w t)"
  by (cases "t < length (timers w) \<and> status (timers w ! t) = Armed")
     (auto simp add: timer_ok_def fire_timer_state fire_timer_fields fire_timer_idle
        fire_timer_not_connecting)

lemma timer_ok_on_data: "timer_ok w \<Longrightarrow> timer_ok (on_data w s d)"
  by (simp add: timer_ok_def port_fields)
     (auto simp add: on_data_def Let_def split: option.splits)

lemma timer_ok_on_drain: "timer_ok w \<Longrightarrow> timer_ok (on_drain w s)"
  by (simp add: timer_ok_def on_drain_fields port_fields)

lemma timer_ok_on_close: "timer_ok w \<Longrightarrow> timer_ok (on_close w s b)"
  by (simp add: timer_ok_def port_fields) (simp add: on_close_def split: option.splits)

lemma timer_ok_on_error: "timer_ok w \<Longrightarrow> timer_ok (on_error w s b)"
  by (simp add: timer_ok_def port_fields) (simp add: on_error_def split: option.splits)

lemma timer_ok_step: "timer_ok w \<Longrightarrow> timer_ok (step w ev)"
  by (cases ev)
     (simp_all add: timer_ok_connect timer_ok_disconnect timer_ok_send timer_ok_on
        timer_ok_fire_timer timer_ok_on_data timer_ok_on_drain timer_ok_on_close timer_ok_on_error)

lemma timer_ok_run: "timer_ok w \<Longrightarrow> timer_ok (run w evs)"
  by (induction evs arbitrary: w) (simp_all add: run_Nil run_Cons timer_ok_step)

text \<open>
  C4, as the code has it. In every state reached from a new instance by calls of its
  methods and callbacks of the runtime: on an instance whose port is a TCP port, while
  the state is Connecting the timer handle is set and its timer is pending; and while
  the state is Connected the handle is null. Nothing is said about Disconnected.
\<close>

theorem timer_handle_invariant:
  "(validatePort (port opts) \<and> state (run (new_econ opts) evs) = Connecting \<longrightarrow>
      (\<exists>t. timeout (run (new_econ opts) evs) = Some t \<and>
           t < length (timers (run (new_econ opts) evs)) \<and>
           status (timers (run (new_econ opts) evs) ! t) = Armed)) \<and>
   (state (run (new_econ opts) evs) = Connected \<longrightarrow>
      timeout (run (new_econ opts) evs) = None)"
  using timer_ok_run [OF timer_ok_new, of opts evs]
  by (simp add: timer_ok_def port_run new_econ_port)

lemma run_connect: "run (new_econ opts) [Connect] = fst (connect (new_econ opts))"
  by (simp add: run_Cons run_Nil)

lemma run_connect_success:
  "run (new_econ opts) [Connect, Data 0 (js ''Authentication successful.\<newline>'')] =
   on_data (fst (connect (new_econ opts))) 0 (js ''Authentication successful.\<newline>'')"
  by (simp add: run_Cons run_Nil)

lemma settle_nth:
  "p < length ps \<Longrightarrow> ps ! p = Pending \<Longrightarrow> settle ps p v ! p = v"
  by (simp add: settle_def)

lemma settle_nth_settled:
  "ps ! p \<noteq> Pending \<Longrightarrow> settle ps p v = ps"
  by (simp add: settle_def)

lemma clearTimeout_nth:
  "t < length ts \<Longrightarrow> status (ts ! t) = Armed \<Longrightarrow> status (clearTimeout ts t ! t) = Cleared"
  by (simp add: clearTimeout_def)

lemma success_first:
  assumes "validatePort (port opts)"
  shows "on_data (fst (connect (new_econ opts))) 0 (js ''Authentication successful.\<newline>'') =
     (fst (connect (new_econ opts)))
       \<lparr>state := Connected,
        timers := clearTimeout (timers (fst (connect (new_econ opts)))) 0,
        timeout := None, promises := [Resolved]\<rparr>"
  using on_data_success [of 0 "fst (connect (new_econ opts))"
      "js ''Authentication successful.\<newline>''"] assms
  by (simp add: first_connect connect_fields line_success settle_def)

theorem timer_handle_invariant_witness:
  "validatePort (port example_options) \<and>
   state (run (new_econ example_options) [Connect]) = Connecting \<and>
   timeout (run (new_econ example_options) [Connect]) = Some 0 \<and>
   status (timers (run (new_econ example_options) [Connect]) ! 0) = Armed \<and>
   state (run (new_econ example_options)
            [Connect, Data 0 (js ''Authentication successful.\<newline>'')]) = Connected \<and>
   timeout (run (new_econ example_options)
            [Connect, Data 0 (js ''Authentication successful.\<newline>'')]) = None"
  using timer_handle_invariant [of example_options "[Connect]"]
    timer_handle_invariant [of example_options
      "[Connect, Data 0 (js ''Authentication successful.\<newline>'')]"]
  by (auto simp add: run_connect run_connect_success success_first connect_fields
        first_connect example_port)

text \<open>
  C4 as stated fails: after \<^verbatim>\<open>connect()\<close> and \<^verbatim>\<open>disconnect()\<close> the state is Disconnected
  and the handle is still set, to a timer that is still pending.
\<close>

theorem timer_handle_counterexample:
  "\<not> (timeout (run (new_econ example_options) [Connect, Disconnect]) \<noteq> None \<longleftrightarrow>
      state (run (new_econ example_options) [Connect, Disconnect]) = Connecting) \<and>
   timeout (run (new_econ example_options) [Connect, Disconnect]) = Some 0 \<and>
   status (timers (run (new_econ example_options) [Connect, Disconnect]) ! 0) = Armed"
  by (simp add: run_Cons run_Nil disconnect_fields first_connect example_port)

lemma password_step: "opt_password (step w ev) = opt_password w"
  by (cases ev)
     (simp_all add: connect_fields disconnect_cases send_def Let_def on_def fire_timer_def
        on_data_def on_drain_def on_close_def on_error_def split: option.splits)

lemma password_run: "opt_password (run w evs) = opt_password w"
  by (induction evs arbitrary: w) (simp_all add: run_Nil run_Cons password_step)

text \<open>A reachable instance that has a socket and is Connecting has a transport and a pending timer.\<close>

lemma reachable_connecting:
  assumes "w = run (new_econ opts) evs" and "state w = Connecting" and "s < length (sockets w)"
  shows "\<exists>c t. conn w = Some c \<and> c < length (sockets w) \<and> timeout w = Some t \<and>
           t < length (timers w) \<and> status (timers w ! t) = Armed"
proof -
  have wf: "wf_econ w" and tok: "timer_ok w" and pok: "port_ok w"
    using assms(1)
    by (simp_all add: wf_run wf_new timer_ok_run timer_ok_new port_ok_run port_ok_new)
  from assms(3) have "sockets w \<noteq> []" by auto
  with pok have valid: "validatePort (opt_port w)" by (simp add: port_ok_def)
  with pok assms(2) obtain c where c: "conn w = Some c" by (auto simp add: port_ok_def)
  with wf have "c < length (sockets w)" by (simp add: wf_econ_def)
  moreover from tok valid assms(2)
  have "\<exists>t. timeout w = Some t \<and> t < length (timers w) \<and> status (timers w ! t) = Armed"
    by (simp add: timer_ok_def)
  ultimately show ?thesis using c by auto
qed

subsection \<open>The handshake, chunk by chunk\<close>

text \<open>
  C5, as the code has it. The handshake looks at whole chunks, not at lines. In a
  reachable state that is Connecting, for a chunk arriving on an existing socket: if the
  trimmed text of the chunk begins with 'Enter password:', the password followed by a
  line terminator is written to the transport and nothing else changes; if it begins
  with 'Authentication successful.', the pending timer of the handle is cancelled, the
  state becomes Connected, and the result of the \<^verbatim>\<open>connect()\<close> that opened this socket is
  resolved if it is still pending and left as it is otherwise; and whatever the chunk
  is, nothing is delivered to the message subscriber.
\<close>

theorem handshake_lines:
  assumes "w = run (new_econ opts) evs" and "state w = Connecting"
    and "s < length (sockets w)" and "conn w = Some c" and "timeout w = Some t"
  shows "(startsWith (trimEnd d) (js ''Enter password:'') \<longrightarrow>
            on_data w s d =
              w\<lparr>sockets := (sockets w)[c := (sockets w ! c)
                   \<lparr>written := written (sockets w ! c) @ [password opts @ js ''\<newline>'']\<rparr>]\<rparr> \<and>
            c < length (sockets w)) \<and>
         (startsWith (trimEnd d) (js ''Authentication successful.'') \<longrightarrow>
            state (on_data w s d) = Connected \<and>
            status (timers w ! t) = Armed \<and>
            status (timers (on_data w s d) ! t) = Cleared \<and>
            timeout (on_data w s d) = None \<and>
            promises (on_data w s d) =
              (if promises w ! data_promise (sockets w ! s) = Pending
               then (promises w)[data_promise (sockets w ! s) := Resolved]
               else promises w)) \<and>
         delivered (on_data w s d) = delivered w"
proof -
  have wf: "wf_econ w"
    using assms(1) by (simp add: wf_run wf_new)
  have pw: "opt_password w = password opts"
    using assms(1) by (simp add: password_run new_econ_fields)
  from reachable_connecting [OF assms(1,2,3)] assms(4,5)
  have c: "c < length (sockets w)" and t: "t < length (timers w)" "status (timers w ! t) = Armed"
    by auto
  have "data_promise (sockets w ! s) \<in> set (handshake_promises w)"
    using assms(3) by (simp add: handshake_promises_def)
  then have p: "data_promise (sockets w ! s) < length (promises w)"
    using wf by (simp add: wf_econ_def)
  have 1: "on_data w s d =
      w\<lparr>sockets := (sockets w)[c := (sockets w ! c)
           \<lparr>written := written (sockets w ! c) @ [password opts @ js ''\<newline>'']\<rparr>]\<rparr>"
    if "startsWith (trimEnd d) (js ''Enter password:'')"
    using that assms(2,3,4) c pw by (simp add: on_data_password sock_write_def)
  have 2: "on_data w s d =
     w\<lparr>state := Connected, timers := clearTimeout (timers w) t, timeout := None,
       promises := settle (promises w) (data_promise (sockets w ! s)) Resolved\<rparr>"
    if "startsWith (trimEnd d) (js ''Authentication successful.'')"
    using that assms(2,3,5) by (simp add: on_data_success startsWith_exclusive)
  have 3: "delivered (on_data w s d) = delivered w"
    using assms(2,3) by (simp add: on_data_def Let_def split: option.splits)
  show ?thesis
    using 1 2 3 c t p by (simp add: settle_def clearTimeout_nth)
qed


lemma run1: "run w [e1] = step w e1"
  by (simp add: run_Cons run_Nil)

lemma example_fields:
  "opt_timeout (new_econ example_options) = None"
  "opt_password (new_econ example_options) = js ''pw''"
  "password example_options = js ''pw''"
  by (simp_all add: new_econ_def example_options_def)

text \<open>C5 as amended, at the first connection of a new instance.\<close>

theorem handshake_lines_witness:
  "state (run (new_econ example_options) [Connect]) = Connecting \<and>
   on_data (run (new_econ example_options) [Connect]) 0 (js ''Enter password:\<newline>'') =
     (run (new_econ example_options) [Connect])
       \<lparr>sockets := (sockets (run (new_econ example_options) [Connect]))
          [0 := (sockets (run (new_econ example_options) [Connect]) ! 0)
             \<lparr>written := [js ''pw'' @ js ''\<newline>'']\<rparr>]\<rparr> \<and>
   state (on_data (run (new_econ example_options) [Connect]) 0
            (js ''Authentication successful.\<newline>'')) = Connected \<and>
   status (timers (on_data (run (new_econ example_options) [Connect]) 0
            (js ''Authentication successful.\<newline>'')) ! 0) = Cleared \<and>
   promises (on_data (run (new_econ example_options) [Connect]) 0
            (js ''Authentication successful.\<newline>'')) = [Resolved] \<and>
   delivered (on_data (run (new_econ example_options) [Connect]) 0
            (js ''Authentication successful.\<newline>'')) = []"
  using handshake_lines [of "run (new_econ example_options) [Connect]" example_options
      "[Connect]" 0 0 0 "js ''Enter password:\<newline>''"]
    handshake_lines [of "run (new_econ example_options) [Connect]" example_options
      "[Connect]" 0 0 0 "js ''Authentication successful.\<newline>''"]
  by (simp add: run_connect first_connect connect_fields line_password line_success
        new_econ_fields example_fields example_port)

lemma line_prompt_and_success:
  "startsWith (trimEnd (js ''Enter password:\<newline>Authentication successful.\<newline>''))
     (js ''Enter password:'')"
  by (simp add: startsWith_def trimEnd_def isWhiteSpace_def js_def)



lemma concrete_lines:
  "startsWith (trimEnd (js ''Authentication successful.\<newline>'')) (js ''Enter password:'') =
     False"
  "startsWith (trimEnd (js ''Authentication successful.\<newline>''))
     (js ''Authentication successful.'') = True"
  "startsWith (trimEnd (js ''Enter password:\<newline>Authentication successful.\<newline>''))
     (js ''Enter password:'') = True"
  using line_success line_prompt_and_success by simp_all

text \<open>
  C5 as stated fails. A chunk holding the prompt and then the line 'Authentication
  successful.' is answered with the password and nothing more: the state stays
  Connecting, the result pending and the timer armed. And after \<^verbatim>\<open>connect()\<close>, a timeout and
  a second \<^verbatim>\<open>connect()\<close>, the line arriving on the first socket moves the state to Connected
  and resolves no result: the first has failed, the second stays pending.
\<close>

theorem handshake_lines_counterexample:
  "state (run (new_econ example_options)
            [Connect, Data 0 (js ''Enter password:\<newline>Authentication successful.\<newline>'')]) =
     Connecting \<and>
   promises (run (new_econ example_options)
            [Connect, Data 0 (js ''Enter password:\<newline>Authentication successful.\<newline>'')]) =
     [Pending] \<and>
   status (timers (run (new_econ example_options)
            [Connect, Data 0 (js ''Enter password:\<newline>Authentication successful.\<newline>'')])
           ! 0) = Armed \<and>
   state (run (new_econ example_options)
            [Connect, TimerFires 0, Connect, Data 0 (js ''Authentication successful.\<newline>'')]) =
     Connected \<and>
   promises (run (new_econ example_options)
            [Connect, TimerFires 0, Connect, Data 0 (js ''Authentication successful.\<newline>'')]) =
     [Rejected ConnectionTimeout, Pending]"
  by (simp add: run_Cons run_Nil new_econ_def example_options_def connect_def Let_def
        validatePort_def fire_timer_def disconnect_def on_data_def concrete_lines
        settle_def clearTimeout_def sock_end_def sock_write_def)

subsection \<open>The handshake timer\<close>







subsection \<open>How a connect() result fails\<close>








subsection \<open>Chunks and lines\<close>

lemma trimEnd_idem: "trimEnd (trimEnd d) = trimEnd d"
  by (simp add: trimEnd_def)

lemma on_data_trimmed: "on_data w s (trimEnd d) = on_data w s d"
  by (simp add: on_data_def trimEnd_idem)

lemma messages_run:
  assumes "state w \<noteq> Connecting" and "messageHooks w = Some l"
    and "\<forall>(s, d) \<in> set chunks. s < length (sockets w)"
  shows "delivered (run w (map (\<lambda>(s, d). Data s d) chunks)) =
         delivered w @ map (\<lambda>(s, d). (l, Message (trimEnd d))) chunks"
  using assms
proof (induction chunks arbitrary: w)
  case Nil
  then show ?case by (simp add: run_Nil)
next
  case (Cons a chunks)
  obtain s d where a: "a = (s, d)" by (cases a)
  with Cons.prems have s: "s < length (sockets w)" by simp
  have eq: "on_data w s d = w\<lparr>delivered := delivered w @ [(l, Message (trimEnd d))]\<rparr>"
    using s Cons.prems(1,2) by (simp add: on_data_message)
  have "delivered (run (on_data w s d) (map (\<lambda>(s, d). Data s d) chunks)) =
        delivered (on_data w s d) @ map (\<lambda>(s, d). (l, Message (trimEnd d))) chunks"
    using Cons.prems by (intro Cons.IH) (simp_all add: eq)
  then show ?case by (simp add: a run_Cons eq)
qed

text \<open>
  C1, as the code has it. There is no line buffer: each chunk, with its trailing
  whitespace trimmed, is taken as one line and handled on its own. While Connecting, a
  chunk whose line begins with none of the three handshake prefixes is dropped and
  leaves nothing behind. Outside Connecting, with a message subscriber, a sequence of
  chunks yields exactly one dispatch per chunk, carrying that chunk's trimmed text.
\<close>

theorem chunk_is_one_line:
  "on_data w s (trimEnd d) = on_data w s d \<and>
   (state w = Connecting \<and>
    \<not> startsWith (trimEnd d) (js ''Enter password:'') \<and>
    \<not> startsWith (trimEnd d) (js ''Authentication successful.'') \<and>
    \<not> startsWith (trimEnd d) (js ''Wrong password.'') \<longrightarrow> on_data w s d = w) \<and>
   (state w \<noteq> Connecting \<and> messageHooks w = Some l \<and>
    (\<forall>(s, d) \<in> set chunks. s < length (sockets w)) \<longrightarrow>
      delivered (run w (map (\<lambda>(s, d). Data s d) chunks)) =
        delivered w @ map (\<lambda>(s, d). (l, Message (trimEnd d))) chunks)"
  using messages_run [of w l chunks]
  by (cases "s < length (sockets w)")
     (simp_all add: on_data_trimmed on_data_ignored on_data_no_socket)

subsection \<open>Chunks and lines on concrete input\<close>

lemma line_fragments:
  "\<not> startsWith (trimEnd (js ''Authentication success'')) (js ''Enter password:'')"
  "\<not> startsWith (trimEnd (js ''Authentication success'')) (js ''Authentication successful.'')"
  "\<not> startsWith (trimEnd (js ''Authentication success'')) (js ''Wrong password.'')"
  "\<not> startsWith (trimEnd (js ''ful.\<newline>'')) (js ''Enter password:'')"
  "\<not> startsWith (trimEnd (js ''ful.\<newline>'')) (js ''Authentication successful.'')"
  "\<not> startsWith (trimEnd (js ''ful.\<newline>'')) (js ''Wrong password.'')"
  by (simp_all add: startsWith_def trimEnd_def isWhiteSpace_def js_def)

lemma line_two:
  "trimEnd (js ''a\<newline>b\<newline>'') = js ''a\<newline>b''"
  "trimEnd (js ''c'') = js ''c''"
  by (simp_all add: trimEnd_def isWhiteSpace_def js_def)

lemma fragments_first:
  assumes "validatePort (port opts)"
  shows "on_data (on_data (fst (connect (new_econ opts))) 0 (js ''Authentication success'')) 0
     (js ''ful.\<newline>'') = fst (connect (new_econ opts))"
  using assms by (simp add: on_data_ignored line_fragments first_connect connect_fields)

text \<open>
  C1 as stated fails: the line 'Authentication successful.' split across two chunks is
  not reassembled (the state stays Connecting, the result pending), where the same line
  in one chunk connects; and a chunk holding two complete lines is dispatched once, as
  one message.
\<close>

theorem split_line_counterexample:
  "state (run (new_econ example_options)
            [Connect, Data 0 (js ''Authentication success''), Data 0 (js ''ful.\<newline>'')]) =
     Connecting \<and>
   promises (run (new_econ example_options)
            [Connect, Data 0 (js ''Authentication success''), Data 0 (js ''ful.\<newline>'')]) ! 0 =
     Pending \<and>
   state (run (new_econ example_options)
            [Connect, Data 0 (js ''Authentication successful.\<newline>'')]) = Connected \<and>
   delivered (run (new_econ example_options)
            [Connect, Data 0 (js ''Authentication successful.\<newline>''), On EvMessage 7,
             Data 0 (js ''a\<newline>b\<newline>'')]) = [(7, Message (js ''a\<newline>b''))]"
  by (simp add: run_Cons run_Nil fragments_first success_first first_connect connect_fields
        example_port new_econ_fields on_def on_data_message line_two)

text \<open>C1 as amended, on a chunk ending mid-line and on a chunk holding two lines.\<close>

theorem chunk_is_one_line_witness:
  "state (fst (connect (new_econ example_options))) = Connecting \<and>
   on_data (fst (connect (new_econ example_options))) 0 (js ''Authentication success'') =
     fst (connect (new_econ example_options)) \<and>
   state (run (new_econ example_options)
            [Connect, Data 0 (js ''Authentication successful.\<newline>''), On EvMessage 7]) =
     Connected \<and>
   delivered (run (run (new_econ example_options)
                     [Connect, Data 0 (js ''Authentication successful.\<newline>''), On EvMessage 7])
                [Data 0 (js ''a\<newline>b\<newline>''), Data 0 (js ''c'')]) =
     [(7, Message (js ''a\<newline>b'')), (7, Message (js ''c''))]"
  using chunk_is_one_line [of "fst (connect (new_econ example_options))" 0
      "js ''Authentication success''" 7 "[]"]
    chunk_is_one_line [of "run (new_econ example_options)
        [Connect, Data 0 (js ''Authentication successful.\<newline>''), On EvMessage 7]" 0 "[]"
      7 "[(0, js ''a\<newline>b\<newline>''), (0, js ''c'')]"]
  by (simp add: run_Cons run_Nil line_fragments success_first first_connect connect_fields
        example_port new_econ_fields on_def line_two)

subsection \<open>What send() writes\<close>

lemma join_terminated:
  "cs \<noteq> [] \<Longrightarrow> join cs sep @ sep = concat (map (\<lambda>c. c @ sep) cs)"
  by (induction cs sep rule: join.induct) simp_all

text \<open>
  C8. In a reachable Connected state, \<^verbatim>\<open>send()\<close> makes exactly one write on the transport: a
  single command followed by one line terminator, or every command of the sequence
  followed by a line terminator (for the empty sequence, the terminator alone); no other
  socket is written.
\<close>

theorem send_serialization:
  assumes "w = run (new_econ opts) evs" and "state w = Connected" and "conn w = Some c"
  shows "c < length (sockets w) \<and>
         written (sockets (fst (send w cmd flushed)) ! c) =
           written (sockets w ! c) @
             [case cmd of
                Single x \<Rightarrow> x @ js ''\<newline>''
              | Many cs \<Rightarrow> if cs = [] then js ''\<newline>''
                           else concat (map (\<lambda>x. x @ js ''\<newline>'') cs)] \<and>
         (\<forall>i < length (sockets w). i \<noteq> c \<longrightarrow>
            written (sockets (fst (send w cmd flushed)) ! i) = written (sockets w ! i))"
proof -
  have wf: "wf_econ w" using assms(1) by (simp add: wf_run wf_new)
  with assms(3) have c: "c < length (sockets w)" by (simp add: wf_econ_def)
  have ser: "serialize cmd =
      (case cmd of Single x \<Rightarrow> x @ js ''\<newline>''
       | Many cs \<Rightarrow> if cs = [] then js ''\<newline>''
                    else concat (map (\<lambda>x. x @ js ''\<newline>'') cs))"
    by (simp add: serialize_def join_terminated split: command.splits)
  show ?thesis
    using c assms(2,3) unfolding ser [symmetric]
    by (cases flushed) (simp_all add: send_connected sock_write_def nth_list_update)
qed

lemma status_echo:
  "js ''status'' @ js ''\<newline>'' @ js ''echo hi'' @ js ''\<newline>'' =
   js ''status\<newline>echo hi\<newline>''"
  by (simp add: js_def)

text \<open>C8 on \<^verbatim>\<open>send(["status", "echo hi"])\<close>: the bytes written are \<^verbatim>\<open>status\necho hi\n\<close>.\<close>

theorem send_serialization_witness:
  "state (run (new_econ example_options)
            [Connect, Data 0 (js ''Authentication successful.\<newline>'')]) = Connected \<and>
   written (sockets (fst (send (run (new_econ example_options)
                                 [Connect, Data 0 (js ''Authentication successful.\<newline>'')])
                            (Many [js ''status'', js ''echo hi'']) True)) ! 0) =
     [js ''status\<newline>echo hi\<newline>'']"
  using send_serialization [of "run (new_econ example_options)
        [Connect, Data 0 (js ''Authentication successful.\<newline>'')]" example_options
      "[Connect, Data 0 (js ''Authentication successful.\<newline>'')]" 0
      "Many [js ''status'', js ''echo hi'']" True]
  by (simp add: run_Cons run_Nil success_first first_connect status_echo example_port)

subsection \<open>send() and backpressure\<close>

lemma settle_nth_other: "q \<noteq> p \<Longrightarrow> settle ps q v ! p = ps ! p"
  by (simp add: settle_def)

lemma settle_settled: "ps ! p \<noteq> Pending \<Longrightarrow> settle ps q v ! p = ps ! p"
  by (cases "q = p") (simp_all add: settle_def)

lemma foldl_settle_nonmember:
  "p \<notin> set qs \<Longrightarrow> foldl (\<lambda>ps q. settle ps q v) ps0 qs ! p = ps0 ! p"
  by (induction qs arbitrary: ps0) (simp_all add: settle_nth_other)

lemma foldl_settle_settled:
  "ps0 ! p \<noteq> Pending \<Longrightarrow> foldl (\<lambda>ps q. settle ps q v) ps0 qs ! p = ps0 ! p"
  by (induction qs arbitrary: ps0) (simp_all add: settle_settled)

lemma foldl_settle_member:
  "p \<in> set qs \<Longrightarrow> p < length ps0 \<Longrightarrow> ps0 ! p = Pending \<Longrightarrow>
   foldl (\<lambda>ps q. settle ps q Resolved) ps0 qs ! p = Resolved"
proof (induction qs arbitrary: ps0)
  case Nil
  then show ?case by simp
next
  case (Cons q qs)
  show ?case
  proof (cases "q = p")
    case True
    with Cons.prems have "settle ps0 q Resolved ! p = Resolved" by (simp add: settle_nth)
    then show ?thesis by (simp add: foldl_settle_settled)
  next
    case False
    with Cons.prems have "p \<in> set qs" "p < length (settle ps0 q Resolved)"
      "settle ps0 q Resolved ! p = Pending"
      by (simp_all add: settle_nth_other)
    from Cons.IH [OF this] show ?thesis by simp
  qed
qed

lemma on_closures:
  "handshake_promises (on w x l) = handshake_promises w"
  "drain_waiters (on w x l) = drain_waiters w"
  "promises (on w x l) = promises w"
  "sockets (on w x l) = sockets w"
  by (simp_all add: handshake_promises_def drain_waiters_def on_def)

lemma on_close_closures:
  "handshake_promises (on_close w s b) = handshake_promises w"
  "drain_waiters (on_close w s b) = drain_waiters w"
  "promises (on_close w s b) = promises w"
  "sockets (on_close w s b) = sockets w"
  by (simp_all add: handshake_promises_def drain_waiters_def on_close_def split: option.splits)

lemma on_error_closures:
  "handshake_promises (on_error w s b) = handshake_promises w"
  "drain_waiters (on_error w s b) = drain_waiters w"
  "promises (on_error w s b) = promises w"
  "sockets (on_error w s b) = sockets w"
  by (simp_all add: handshake_promises_def drain_waiters_def on_error_def split: option.splits)

lemma promises_fire_timer:
  "promises (fire_timer w t) = promises w \<or>
   t < length (timers w) \<and>
   promises (fire_timer w t) =
     settle (promises w) (timer_promise (timers w ! t)) (Rejected ConnectionTimeout)"
  by (simp add: fire_timer_def Let_def disconnect_cases split: option.splits)

lemma promises_on_data:
  "promises (on_data w s d) = promises w \<or>
   s < length (sockets w) \<and>
   (\<exists>v. promises (on_data w s d) = settle (promises w) (data_promise (sockets w ! s)) v)"
  by (auto simp add: on_data_def Let_def split: option.splits)

lemma promises_on_drain:
  "promises (on_drain w s) =
     (if s < length (sockets w)
      then foldl (\<lambda>ps p. settle ps p Resolved) (promises w) (drain_waiters w ! s)
      else promises w)"
  by (simp add: on_drain_def drain_waiters_def)

lemma timer_promise_member:
  "t < length (timers w) \<Longrightarrow> timer_promise (timers w ! t) \<in> set (handshake_promises w)"
  by (simp add: handshake_promises_def)

lemma data_promise_member:
  "s < length (sockets w) \<Longrightarrow> data_promise (sockets w ! s) \<in> set (handshake_promises w)"
  by (simp add: handshake_promises_def)

lemma connect_closures_set:
  assumes "validatePort (opt_port w)"
  shows "set (handshake_promises (fst (connect w))) =
     insert (length (promises w)) (set (handshake_promises w))"
  by (subst connect_closures [OF assms]) (auto simp add: handshake_promises_def)

lemma send_waiters_nth:
  assumes "i < length (sockets w)"
  shows "set (drain_waiters w ! i) \<subseteq> set (drain_waiters (fst (send w cmd fl)) ! i) \<and>
         set (drain_waiters (fst (send w cmd fl)) ! i) \<subseteq>
           insert (length (promises w)) (set (drain_waiters w ! i))"
proof (cases "conn w")
  case None
  then show ?thesis by (auto simp add: send_waiters)
next
  case (Some c)
  from assms have "i < length (drain_waiters w)" by (simp add: drain_waiters_length)
  with Some show ?thesis
    by (cases "c = i") (auto simp add: send_waiters)
qed

lemma send_promises_old:
  "p < length (promises w) \<Longrightarrow> promises (fst (send w cmd fl)) ! p = promises w ! p"
  by (simp add: send_def Let_def nth_append split: option.splits)

lemma waiting_on_step:
  assumes "waiting_on p c w" and "ev \<noteq> Drain c"
  shows "waiting_on p c (step w ev)"
proof -
  from assms(1) have w: "p < length (promises w)" "promises w ! p = Pending"
    "p \<notin> set (handshake_promises w)" "c < length (sockets w)" "p \<in> set (drain_waiters w ! c)"
    "\<forall>i < length (sockets w). i \<noteq> c \<longrightarrow> p \<notin> set (drain_waiters w ! i)"
    by (simp_all add: waiting_on_def)
  show ?thesis
  proof (cases ev)
    case Connect
    show ?thesis
    proof (cases "validatePort (opt_port w)")
      case True
      with Connect w show ?thesis
        by (auto simp add: waiting_on_def connect_closures_set connect_closures(2)
            connect_valid nth_append drain_waiters_length less_Suc_eq)
    next
      case False
      with Connect w show ?thesis
        by (simp add: waiting_on_def connect_closures_invalid connect_invalid nth_append)
    qed
  next
    case Disconnect
    with w show ?thesis
      by (simp add: waiting_on_def disconnect_closures disconnect_fields)
  next
    case (Send cmd fl)
    from w(1) send_waiters_nth [of _ w cmd fl] Send w show ?thesis
      unfolding waiting_on_def
      by (simp add: send_closures send_fields send_promises_old) blast
  next
    case (On x l)
    with w show ?thesis by (simp add: waiting_on_def on_closures)
  next
    case (TimerFires t)
    have "timer_promise (timers w ! t) \<noteq> p" if "t < length (timers w)"
      using that w(3) timer_promise_member [of t w] by auto
    with promises_fire_timer [of w t]
    have "promises (fire_timer w t) ! p = promises w ! p"
      by (auto simp add: settle_nth_other)
    with TimerFires w show ?thesis
      by (simp add: waiting_on_def fire_timer_closures fire_timer_fields)
  next
    case (Data s d)
    have "data_promise (sockets w ! s) \<noteq> p" if "s < length (sockets w)"
      using that w(3) data_promise_member [of s w] by auto
    with promises_on_data [of w s d]
    have "promises (on_data w s d) ! p = promises w ! p"
      by (auto simp add: settle_nth_other)
    with Data w show ?thesis
      by (simp add: waiting_on_def on_data_closures on_data_fields)
  next
    case (Drain s)
    with assms(2) have sc: "s \<noteq> c" by simp
    have "promises (on_drain w s) ! p = promises w ! p"
      using w(6) sc by (simp add: promises_on_drain foldl_settle_nonmember)
    moreover have "p \<notin> set ((drain_waiters w)[s := []] ! i)"
      if "i < length (sockets w)" "i \<noteq> c" for i
      using that w(6) by (cases "i = s") (simp_all add: drain_waiters_length)
    ultimately show ?thesis
      using Drain w sc
      by (simp add: waiting_on_def on_drain_closures on_drain_fields)
  next
    case (Close s b)
    with w show ?thesis by (simp add: waiting_on_def on_close_closures)
  next
    case (Error s b)
    with w show ?thesis by (simp add: waiting_on_def on_error_closures)
  qed
qed

lemma waiting_on_run:
  "waiting_on p c w \<Longrightarrow> Drain c \<notin> set evs \<Longrightarrow> waiting_on p c (run w evs)"
proof (induction evs arbitrary: w)
  case Nil
  then show ?case by (simp add: run_Nil)
next
  case (Cons ev evs)
  from Cons.prems have "waiting_on p c (step w ev)" by (intro waiting_on_step) auto
  with Cons show ?case by (simp add: run_Cons)
qed

lemma waiting_on_drain:
  "waiting_on p c w \<Longrightarrow> promises (on_drain w c) ! p = Resolved"
  by (simp add: waiting_on_def promises_on_drain foldl_settle_member)

lemma waiting_on_send:
  assumes "wf_econ w" and "state w = Connected" and "conn w = Some c"
  shows "waiting_on (length (promises w)) c (fst (send w cmd False))"
proof -
  from assms have c: "c < length (sockets w)" by (simp add: wf_econ_def)
  have fresh: "\<forall>ps \<in> set (drain_waiters w). length (promises w) \<notin> set ps"
    "length (promises w) \<notin> set (handshake_promises w)"
    using assms(1) by (auto simp add: wf_econ_def)
  have "\<forall>i < length (sockets w). length (promises w) \<notin> set (drain_waiters w ! i)"
    using fresh(1) by (simp add: drain_waiters_length)
  with c fresh(2) assms(2,3) show ?thesis
    by (simp add: waiting_on_def send_closures send_fields send_waiters nth_list_update
        drain_waiters_length)
       (simp add: send_connected)
qed

text \<open>
  C7. In a reachable Connected state: when the write is accepted without backpressure,
  the result of \<^verbatim>\<open>send()\<close> is resolved at once; when the transport reports its buffer full, the
  result is pending, stays pending over every run of events without a 'drain' of that
  transport, and is resolved by the 'drain'.
\<close>

theorem send_backpressure:
  assumes "w = run (new_econ opts) evs" and "state w = Connected" and "conn w = Some c"
  shows "promises (fst (send w cmd True)) ! snd (send w cmd True) = Resolved \<and>
         promises (fst (send w cmd False)) ! snd (send w cmd False) = Pending \<and>
         (\<forall>evs'. Drain c \<notin> set evs' \<longrightarrow>
            promises (run (fst (send w cmd False)) evs') ! snd (send w cmd False) = Pending \<and>
            promises (run (fst (send w cmd False)) (evs' @ [Drain c])) ! snd (send w cmd False) =
              Resolved)"
proof -
  have wf: "wf_econ w" using assms(1) by (simp add: wf_run wf_new)
  with assms(3) have c: "c < length (sockets w)" by (simp add: wf_econ_def)
  have 1: "promises (fst (send w cmd True)) ! snd (send w cmd True) = Resolved"
    using assms(2,3) c by (simp add: send_connected)
  have wait: "waiting_on (length (promises w)) c (fst (send w cmd False))"
    using wf assms(2,3) by (rule waiting_on_send)
  have 2: "promises (fst (send w cmd False)) ! snd (send w cmd False) = Pending"
    using wait by (simp add: waiting_on_def send_fields)
  have 3: "promises (run (fst (send w cmd False)) evs') ! snd (send w cmd False) = Pending \<and>
      promises (run (fst (send w cmd False)) (evs' @ [Drain c])) ! snd (send w cmd False) =
        Resolved" if "Drain c \<notin> set evs'" for evs'
  proof -
    from waiting_on_run [OF wait that]
    have k: "waiting_on (length (promises w)) c (run (fst (send w cmd False)) evs')" .
    then show ?thesis
      by (simp add: send_fields run_snoc waiting_on_drain) (simp add: waiting_on_def)
  qed
  from 1 2 3 show ?thesis by blast
qed

text \<open>C7 on the first connection of a new instance, with a 'close' before the 'drain'.\<close>

theorem send_backpressure_witness:
  "state (run (new_econ example_options)
            [Connect, Data 0 (js ''Authentication successful.\<newline>'')]) = Connected \<and>
   promises (fst (send (run (new_econ example_options)
                          [Connect, Data 0 (js ''Authentication successful.\<newline>'')])
                     (Single (js ''status'')) True)) ! 1 = Resolved \<and>
   promises (run (fst (send (run (new_econ example_options)
                          [Connect, Data 0 (js ''Authentication successful.\<newline>'')])
                     (Single (js ''status'')) False)) [Close 0 False]) ! 1 = Pending \<and>
   promises (run (fst (send (run (new_econ example_options)
                          [Connect, Data 0 (js ''Authentication successful.\<newline>'')])
                     (Single (js ''status'')) False)) ([Close 0 False] @ [Drain 0])) ! 1 = Resolved"
proof -
  let ?w = "run (new_econ example_options)
              [Connect, Data 0 (js ''Authentication successful.\<newline>'')]"
  have h: "state ?w = Connected" "conn ?w = Some 0" "length (promises ?w) = 1"
    by (simp_all add: run_Cons run_Nil success_first first_connect example_port)
  note t = send_backpressure [OF refl h(1,2), of "Single (js ''status'')"]
  from t have "Drain 0 \<notin> set [Close 0 False] \<longrightarrow>
      promises (run (fst (send ?w (Single (js ''status'')) False)) [Close 0 False])
        ! snd (send ?w (Single (js ''status'')) False) = Pending \<and>
      promises (run (fst (send ?w (Single (js ''status'')) False)) ([Close 0 False] @ [Drain 0]))
        ! snd (send ?w (Single (js ''status'')) False) = Resolved"
    by blast
  with t h show ?thesis by (simp add: send_fields)
qed

subsection \<open>quickfire with a window of 0\<close>

















lemma quickfire_bad_port:
  assumes "\<not> validatePort (port opts)"
  shows "quickfire opts cmd window fl =
     \<lparr>inst = fst (connect (new_econ opts)), command_arg = cmd,
      collectResponsesFor = (case window of None \<Rightarrow> 0 | Some n \<Rightarrow> n),
      write_flushed = fl, phase = Done, result = QRejected BadPort\<rparr>"
  using assms connect_invalid(3) [of "new_econ opts"]
  by (simp add: quickfire_def Let_def split_beta connect_fields new_econ_fields
        qf_resume_def promise_at_def new_econ_port)
























end
